theory Spec2Isabelle
  imports Complex_Main
begin

section \<open>DeepTraffic-GradCAM backend: the request handlers of backend/main.py\<close>

text \<open>
  The backend is a FastAPI application with three module-level globals (\<open>model\<close>,
  \<open>explain_model\<close>, \<open>cam_extractor\<close>), a lifespan hook that sets them, and the
  handlers \<open>health_check\<close>, \<open>detect\<close> and \<open>explain\<close>.

  Conventions of the embedding:
  \<^item> the globals are a record that the lifespan hook takes and returns; the handlers only
    read it (no handler has a \<open>global\<close> statement);
  \<^item> a handler returns \<open>http_exception + response\<close>: \<open>Inl\<close> is a raised
    \<open>HTTPException\<close>, which FastAPI turns into an error response with that status code and
    detail, \<open>Inr\<close> is the returned response model;
  \<^item> everything the handlers call in other libraries (base64, OpenCV, ultralytics,
    pytorch-grad-cam, the clock) is a parameter: a field of the \<open>env\<close> record or of the
    loaded model objects. A library call inside a \<open>try\<close> returns \<open>exn + value\<close>; a
    call outside one is taken to return (an exception there is no \<open>HTTPException\<close> of the
    handlers);
  \<^item> a Python \<open>float\<close> is idealised as a \<open>real\<close>, and \<open>round(v, n)\<close> on one gives the
    multiple of \<open>10\<^sup>-\<^sup>n\<close> nearest to it, ties to even (the code gives the binary64 value
    nearest to that multiple, which is written out as the decimal);
  \<^item> a numpy \<open>float32\<close> scalar is the \<open>real\<close> it stands for, and every operation on
    float32 scalars rounds its exact result to binary32 (\<open>fl32\<close>): a float32 value widened
    to a Python \<open>float\<close> keeps its binary32 digits.
\<close>

subsection \<open>Python values\<close>

text \<open>A raised exception, with the text that \<open>str(e)\<close> gives.\<close>

datatype exn = Exn string

fun exn_str :: "exn \<Rightarrow> string" where
  "exn_str (Exn s) = s"

text \<open>\<open>HTTPException(status_code, detail)\<close>.\<close>

datatype http_exception = HTTPException (status_code: int) (detail: string)

text \<open>A \<open>bytes\<close> object: a sequence of 8-bit values, as \<open>char\<close> is.\<close>

type_synonym bytes = "char list"

text \<open>
  A decoded image (an OpenCV matrix as a numpy array): \<open>frame.shape[:2]\<close> is
  \<open>(img_height, img_width)\<close>. The pixel values are kept only as data that the library
  functions may depend on.
\<close>

record image =
  img_height :: nat
  img_width :: nat
  img_channels :: nat
  img_data :: "real list"

text \<open>
  \<open>round(v, ndigits)\<close>: to the nearest multiple of \<open>10\<^sup>-\<^sup>n\<close>, a tie going to the even
  neighbour.
\<close>

definition round_half_even :: "real \<Rightarrow> int" where
  "round_half_even v =
     (let f = \<lfloor>v\<rfloor>; d = v - of_int f
      in if d < 1 / 2 then f
         else if 1 / 2 < d then f + 1
         else if even f then f else f + 1)"

definition py_round :: "real \<Rightarrow> nat \<Rightarrow> real" where
  "py_round v ndigits = of_int (round_half_even (v * 10 ^ ndigits)) / 10 ^ ndigits"

text \<open>
  Binary32 arithmetic. \<open>pow2 e\<close> is \<open>2\<^sup>e\<close>. \<open>float_exponent n v\<close> is the exponent \<open>e\<close> with
  \<open>2\<^sup>e \<le> v < 2\<^sup>e\<^sup>+\<^sup>1\<close> for a positive \<open>v\<close>, found in at most \<open>n\<close> halvings or doublings;
  300 of them cover the binary32 range. \<open>float32_ulp v\<close> is the distance between the
  binary32 values around \<open>v\<close>: 24 significant bits, and the smallest exponent is \<open>-126\<close>.
  \<open>fl32 v\<close> is the binary32 value nearest to \<open>v\<close>, ties to the even significand. Values
  beyond the largest binary32 value (which numpy turns into \<open>inf\<close>) are outside the model.
\<close>

definition pow2 :: "int \<Rightarrow> real" where
  "pow2 e = (if 0 \<le> e then 2 ^ nat e else 1 / 2 ^ nat (- e))"

fun float_exponent :: "nat \<Rightarrow> real \<Rightarrow> int" where
  "float_exponent n v =
     (if n = 0 then 0
      else if v < 1 then float_exponent (n - 1) (2 * v) - 1
      else if 2 \<le> v then float_exponent (n - 1) (v / 2) + 1
      else 0)"

definition float32_ulp :: "real \<Rightarrow> real" where
  "float32_ulp v = pow2 (max (float_exponent 300 \<bar>v\<bar>) (- 126) - 23)"

definition round_to_multiple :: "real \<Rightarrow> real \<Rightarrow> real" where
  "round_to_multiple u v = of_int (round_half_even (v / u)) * u"

definition fl32 :: "real \<Rightarrow> real" where
  "fl32 v = (if v = 0 then 0 else round_to_multiple (float32_ulp v) v)"

text \<open>
  \<open>round(v, decimals)\<close> on a numpy float32 scalar is \<open>ndarray.round\<close>: the value is
  multiplied by \<open>10 ** decimals\<close>, rounded to an integer by \<open>rint\<close> (ties to even) and
  divided by \<open>10 ** decimals\<close>, each step in binary32.
\<close>

definition np_round :: "real \<Rightarrow> nat \<Rightarrow> real" where
  "np_round v decimals =
     fl32 (of_int (round_half_even (fl32 (v * 10 ^ decimals))) / 10 ^ decimals)"

text \<open>\<open>int(v)\<close> on a float: truncation towards zero.\<close>

definition py_int :: "real \<Rightarrow> int" where
  "py_int v = (if 0 \<le> v then \<lfloor>v\<rfloor> else \<lceil>v\<rceil>)"

text \<open>\<open>str(n)\<close> on an integer, as the f-string \<open>f"class_{cls_id}"\<close> formats it.\<close>

fun str_nat :: "nat \<Rightarrow> string" where
  "str_nat n =
     (if n < 10 then [''0123456789'' ! n]
      else str_nat (n div 10) @ [''0123456789'' ! (n mod 10)])"

definition str_int :: "int \<Rightarrow> string" where
  "str_int i = (if i < 0 then CHR ''-'' # str_nat (nat (- i)) else str_nat (nat i))"

text \<open>
  A \<open>dict\<close> in insertion order: \<open>d.get(k, default)\<close> and \<open>d[k] = v\<close> (an existing key
  keeps its place, a new key goes to the end).
\<close>

fun dict_get :: "('k \<times> 'v) list \<Rightarrow> 'k \<Rightarrow> 'v \<Rightarrow> 'v" where
  "dict_get [] k dflt = dflt"
| "dict_get ((k', v') # kvs) k dflt = (if k' = k then v' else dict_get kvs k dflt)"

fun dict_set :: "('k \<times> 'v) list \<Rightarrow> 'k \<Rightarrow> 'v \<Rightarrow> ('k \<times> 'v) list" where
  "dict_set [] k v = [(k, v)]"
| "dict_set ((k', v') # kvs) k v =
     (if k' = k then (k, v) # kvs else (k', v') # dict_set kvs k v)"

text \<open>\<open>sum(d.values())\<close>.\<close>

definition sum_values :: "('k \<times> int) list \<Rightarrow> int" where
  "sum_values d = sum_list (map snd d)"

subsection \<open>The detector's results (ultralytics)\<close>

text \<open>
  \<open>results[0].boxes\<close> is a \<open>Boxes\<close> object over one tensor with a row per box:
  \<open>boxes.xyxy[i]\<close>, \<open>boxes.conf[i]\<close>, \<open>boxes.cls[i]\<close> and \<open>boxes.id[i]\<close> are columns of
  row \<open>i\<close>, and \<open>len(boxes)\<close> is the number of rows. The id column exists only when the
  tracker produced ids: \<open>boxes.id\<close> is \<open>None\<close> exactly when \<open>is_track\<close> is false, and
  \<open>box_id\<close> is read only when it is true.
\<close>

record box_row =
  box_xyxy :: "real \<times> real \<times> real \<times> real"
  box_conf :: real
  box_cls :: real
  box_id :: real

record Boxes =
  boxes_data :: "box_row list"
  is_track :: bool

record Results =
  boxes :: "Boxes option"

text \<open>
  The loaded \<open>YOLO\<close> object: the class table \<open>model.names\<close> and
  \<open>model.track(frame, tracker=..., persist=True, conf=, iou=, imgsz=, verbose=False)\<close>.
  The tracker keeps state between calls; a handler makes one call, whose result is whatever
  \<open>track\<close> gives, and every theorem holds for every \<open>track\<close>.
\<close>

record YOLO =
  names :: "int \<rightharpoonup> string"
  track :: "image \<Rightarrow> real \<Rightarrow> real \<Rightarrow> int \<Rightarrow> Results list"

subsection \<open>Request and response schemas\<close>

record DetectRequest =
  frame :: string
  conf :: real
  iou :: real
  imgsz :: int

record BBox =
  bbox_x :: real
  bbox_y :: real
  bbox_width :: real
  bbox_height :: real

record DetectionResult =
  track_id :: int
  class_name :: string
  class_id :: int
  confidence :: real
  bbox :: BBox

text \<open>The second \<open>DetectResponse\<close> class of the module replaces the first: it adds \<open>tracker\<close>.\<close>

record DetectResponse =
  detections :: "DetectionResult list"
  vehicle_count :: int
  count_by_class :: "(string \<times> int) list"
  inference_time_ms :: real
  frame_width :: nat
  frame_height :: nat
  tracker :: string

record ExplainRequest =
  frame :: string

record ExplainResponse =
  heatmap :: string
  inference_time_ms :: real

text \<open>The values of the \<open>dict\<close> that \<open>health_check\<close> returns.\<close>

datatype pyval = Str string | Bool bool

subsection \<open>The explainability model (torchvision, pytorch-grad-cam)\<close>

text \<open>
  \<open>mobilenet_v3_small(weights=...)\<close> gives the classifier; \<open>GradCAM(model=, target_layers=)\<close>
  gives the extractor, a callable: \<open>cam_extractor(input_tensor=t, targets=None)[0, :]\<close> is
  \<open>cam_call\<close> on \<open>t\<close>.
\<close>

datatype MobileNetV3 = MobileNetV3 (classifier: "image \<Rightarrow> real list")

record GradCAM =
  cam_model :: MobileNetV3
  cam_call :: "image \<Rightarrow> image"

subsection \<open>The environment and the globals\<close>

datatype color_code = COLOR_BGR2RGB | COLOR_RGB2BGR

text \<open>
  The library calls: \<open>base64.b64decode\<close>, \<open>cv2.imdecode\<close> (on the buffer of
  \<open>np.frombuffer\<close>), \<open>time.perf_counter\<close> (the n-th reading of a request),
  \<open>cv2.cvtColor\<close>, \<open>cv2.resize(src, (width, height))\<close>, \<open>show_cam_on_image(img, mask,
  use_rgb=True)\<close>, \<open>cv2.imencode(ext, img)[1]\<close>, \<open>base64.b64encode(buf).decode("utf-8")\<close>;
  and what the lifespan hook loads: \<open>MODEL_PATH.exists()\<close>, \<open>str(MODEL_PATH)\<close>,
  \<open>YOLO(str(MODEL_PATH))\<close>, \<open>mobilenet_v3_small(...)\<close>, \<open>GradCAM(...)\<close>.
\<close>

record env =
  b64decode :: "string \<Rightarrow> exn + bytes"
  imdecode :: "bytes \<Rightarrow> exn + image option"
  perf_counter :: "nat \<Rightarrow> real"
  cvtColor :: "image \<Rightarrow> color_code \<Rightarrow> image"
  resize :: "image \<Rightarrow> nat \<times> nat \<Rightarrow> image"
  show_cam_on_image :: "image \<Rightarrow> image \<Rightarrow> image"
  imencode :: "string \<Rightarrow> image \<Rightarrow> bytes"
  b64encode :: "bytes \<Rightarrow> string"
  model_path_exists :: bool
  model_path_str :: string
  load_YOLO :: YOLO
  mobilenet_v3_small :: MobileNetV3
  new_GradCAM :: "MobileNetV3 \<Rightarrow> GradCAM"

record globals =
  model :: "YOLO option"
  explain_model :: "MobileNetV3 option"
  cam_extractor :: "GradCAM option"

text \<open>The module-level assignments: all three globals start as \<open>None\<close>.\<close>

definition module_globals :: globals where
  "module_globals = \<lparr>model = None, explain_model = None, cam_extractor = None\<rparr>"

subsection \<open>\<open>lifespan\<close>\<close>

text \<open>
  The part of \<open>lifespan\<close> before \<open>yield\<close> (startup) and the part after it (shutdown).
  The warm-up \<open>model.predict(dummy)\<close> and the prints leave the globals alone.
\<close>

definition lifespan_startup :: "env \<Rightarrow> globals \<Rightarrow> exn + globals" where
  "lifespan_startup env g =
     (if \<not> model_path_exists env
      then Inl (Exn (''Model weights not found at '' @ model_path_str env))
      else
        (let g1 = g\<lparr>model := Some (load_YOLO env)\<rparr>;
             em = mobilenet_v3_small env;
             g2 = g1\<lparr>explain_model := Some em\<rparr>;
             g3 = g2\<lparr>cam_extractor := Some (new_GradCAM env em)\<rparr>
         in Inr g3))"

definition lifespan_shutdown :: "globals \<Rightarrow> globals" where
  "lifespan_shutdown g = g\<lparr>model := None\<rparr>"

subsection \<open>\<open>health_check\<close>\<close>

definition health_check :: "globals \<Rightarrow> (string \<times> pyval) list" where
  "health_check g =
     [(''status'', Str ''ok''),
      (''model_loaded'', Bool (case model g of None \<Rightarrow> False | Some _ \<Rightarrow> True)),
      (''model_path'', Str ''best.pt''),
      (''tracker'', Str ''botsort'')]"

subsection \<open>\<open>detect\<close>\<close>

text \<open>
  The \<open>try\<close> block that both handlers open with: \<open>base64.b64decode\<close>,
  \<open>np.frombuffer\<close>, \<open>cv2.imdecode\<close>, and \<open>raise ValueError(msg)\<close> when the frame is
  \<open>None\<close>. The result is the frame, or the exception that \<open>except Exception as e\<close> catches.
\<close>

definition try_decode :: "env \<Rightarrow> string \<Rightarrow> string \<Rightarrow> exn + image" where
  "try_decode env s msg =
     (case b64decode env s of
        Inl e \<Rightarrow> Inl e
      | Inr img_bytes \<Rightarrow>
          (case imdecode env img_bytes of
             Inl e \<Rightarrow> Inl e
           | Inr None \<Rightarrow> Inl (Exn msg)
           | Inr (Some fr) \<Rightarrow> Inr fr))"

text \<open>
  The body of \<open>for i in range(len(boxes))\<close>, one row at a time, with the two
  accumulators \<open>detections\<close> and \<open>count_by_class\<close>. The elements of \<open>xyxy\<close> are float32
  scalars, \<open>w\<close> and \<open>h\<close> are Python integers that the division turns into float32, and
  \<open>round(cx, 4)\<close> is numpy's; \<open>conf\<close> goes through \<open>float()\<close> first, so \<open>round(conf, 4)\<close> is
  Python's.
\<close>

definition parse_box :: "(int \<rightharpoonup> string) \<Rightarrow> bool \<Rightarrow> nat \<Rightarrow> nat \<Rightarrow> box_row \<Rightarrow> DetectionResult" where
  "parse_box nms tracked w h b =
     (case box_xyxy b of (x1, y1, x2, y2) \<Rightarrow>
        let cx = fl32 (fl32 (fl32 (x1 + x2) / 2) / fl32 (real w));
            cy = fl32 (fl32 (fl32 (y1 + y2) / 2) / fl32 (real h));
            bw = fl32 (fl32 (x2 - x1) / fl32 (real w));
            bh = fl32 (fl32 (y2 - y1) / fl32 (real h));
            cnf = box_conf b;
            cls_id = py_int (box_cls b);
            cls_name = (case nms cls_id of Some n \<Rightarrow> n | None \<Rightarrow> ''class_'' @ str_int cls_id);
            tid = (if tracked then py_int (box_id b) else - 1)
        in \<lparr>track_id = tid, class_name = cls_name, class_id = cls_id,
            confidence = py_round cnf 4,
            bbox = \<lparr>bbox_x = np_round cx 4, bbox_y = np_round cy 4,
                    bbox_width = np_round bw 4, bbox_height = np_round bh 4\<rparr>\<rparr>)"

fun parse_loop ::
  "(int \<rightharpoonup> string) \<Rightarrow> bool \<Rightarrow> nat \<Rightarrow> nat \<Rightarrow> box_row list \<Rightarrow>
   DetectionResult list \<Rightarrow> (string \<times> int) list \<Rightarrow> DetectionResult list \<times> (string \<times> int) list" where
  "parse_loop nms tracked w h [] dets cbc = (dets, cbc)"
| "parse_loop nms tracked w h (b # bs) dets cbc =
     (let d = parse_box nms tracked w h b;
          cls_name = class_name d
      in parse_loop nms tracked w h bs (dets @ [d])
           (dict_set cbc cls_name (dict_get cbc cls_name 0 + 1)))"

text \<open>\<open>if results and results[0].boxes is not None:\<close> and the loop under it.\<close>

definition parse_results ::
  "YOLO \<Rightarrow> nat \<Rightarrow> nat \<Rightarrow> Results list \<Rightarrow> DetectionResult list \<times> (string \<times> int) list" where
  "parse_results m w h results =
     (case results of
        [] \<Rightarrow> ([], [])
      | r # _ \<Rightarrow>
          (case boxes r of
             None \<Rightarrow> ([], [])
           | Some bxs \<Rightarrow> parse_loop (names m) (is_track bxs) w h (boxes_data bxs) [] []))"

definition detect :: "globals \<Rightarrow> env \<Rightarrow> DetectRequest \<Rightarrow> http_exception + DetectResponse" where
  "detect g env req =
     (case model g of
        None \<Rightarrow> Inl (HTTPException 503 ''Model not loaded'')
      | Some m \<Rightarrow>
          (case try_decode env (DetectRequest.frame req) ''Failed to decode image'' of
             Inl e \<Rightarrow> Inl (HTTPException 400 (''Invalid frame data: '' @ exn_str e))
           | Inr fr \<Rightarrow>
               (let h = img_height fr;
                    w = img_width fr;
                    t0 = perf_counter env 0;
                    results = track m fr (conf req) (iou req) (imgsz req);
                    inference_ms = (perf_counter env 1 - t0) * 1000;
                    (dets, cbc) = parse_results m w h results
                in Inr \<lparr>detections = dets,
                        vehicle_count = int (length dets),
                        count_by_class = cbc,
                        DetectResponse.inference_time_ms = py_round inference_ms 2,
                        frame_width = w,
                        frame_height = h,
                        tracker = ''botsort''\<rparr>)))"

subsection \<open>\<open>explain\<close>\<close>

text \<open>\<open>np.float32(a) / 255\<close>: every element divided, the shape kept.\<close>

definition np_float32_div :: "image \<Rightarrow> real \<Rightarrow> image" where
  "np_float32_div a c = a\<lparr>img_data := map (\<lambda>v. v / c) (img_data a)\<rparr>"

text \<open>
  The handler's body after the \<open>try\<close>, up to the encoded string. The tuple gives the
  values that the statements below name: \<open>input_tensor\<close> (before
  \<open>torch.from_numpy(...).permute(2, 0, 1).unsqueeze(0)\<close>, which only changes the layout),
  \<open>grayscale_cam_resized\<close>, \<open>vis_bgr\<close> and \<open>b64_str\<close>.
\<close>

definition render_heatmap :: "env \<Rightarrow> GradCAM \<Rightarrow> image \<Rightarrow> image \<times> image \<times> image \<times> string" where
  "render_heatmap env cam fr =
     (let rgb_frame = cvtColor env fr COLOR_BGR2RGB;
          rgb_frame_float = np_float32_div rgb_frame 255;
          input_tensor = resize env rgb_frame_float (224, 224);
          grayscale_cam = cam_call cam input_tensor;
          h = img_height fr;
          w = img_width fr;
          grayscale_cam_resized = resize env grayscale_cam (w, h);
          visualization = show_cam_on_image env rgb_frame_float grayscale_cam_resized;
          vis_bgr = cvtColor env visualization COLOR_RGB2BGR;
          buffer = imencode env ''.jpg'' vis_bgr;
          b64_str = b64encode env buffer
      in (input_tensor, grayscale_cam_resized, vis_bgr, b64_str))"

definition explain :: "globals \<Rightarrow> env \<Rightarrow> ExplainRequest \<Rightarrow> http_exception + ExplainResponse" where
  "explain g env req =
     (case cam_extractor g of
        None \<Rightarrow> Inl (HTTPException 503 ''Explainability model not loaded'')
      | Some cam \<Rightarrow>
          (let t0 = perf_counter env 0
           in case try_decode env (ExplainRequest.frame req) ''Failed to decode'' of
                Inl e \<Rightarrow> Inl (HTTPException 400 (''Invalid frame: '' @ exn_str e))
              | Inr fr \<Rightarrow>
                  (case render_heatmap env cam fr of
                     (input_tensor, grayscale_cam_resized, vis_bgr, b64_str) \<Rightarrow>
                       (let inference_ms = (perf_counter env 1 - t0) * 1000
                        in Inr \<lparr>heatmap = b64_str,
                                inference_time_ms = py_round inference_ms 2\<rparr>))))"

section \<open>Specification vocabulary\<close>

text \<open>
  \<open>r\<close> is \<open>v\<close> rounded to \<open>n\<close> decimal places: a whole number of units \<open>10\<^sup>-\<^sup>n\<close>,
  at most half a unit from \<open>v\<close>. Nothing is said about ties.
\<close>

definition rounded_to :: "nat \<Rightarrow> real \<Rightarrow> real \<Rightarrow> bool" where
  "rounded_to n v r \<longleftrightarrow> (\<exists>k::int. r = of_int k / 10 ^ n) \<and> \<bar>r - v\<bar> \<le> 1 / (2 * 10 ^ n)"

text \<open>A value is a whole number of units \<open>10\<^sup>-\<^sup>4\<close>.\<close>

definition four_decimals :: "real \<Rightarrow> bool" where
  "four_decimals r \<longleftrightarrow> (\<exists>k::int. r = of_int k / 10 ^ 4)"

text \<open>
  The frame of a request cannot be decoded: \<open>base64.b64decode\<close> raises, or
  \<open>cv2.imdecode\<close> raises or returns \<open>None\<close>. And the detector found nothing: \<open>results\<close>
  is empty, or \<open>results[0].boxes\<close> is \<open>None\<close> or has no rows.
\<close>

definition decode_fails :: "env \<Rightarrow> string \<Rightarrow> bool" where
  "decode_fails env s =
     (case b64decode env s of
        Inl e \<Rightarrow> True
      | Inr img_bytes \<Rightarrow>
          (case imdecode env img_bytes of
             Inl e \<Rightarrow> True
           | Inr None \<Rightarrow> True
           | Inr (Some fr) \<Rightarrow> False))"

definition no_boxes :: "Results list \<Rightarrow> bool" where
  "no_boxes results =
     (case results of
        [] \<Rightarrow> True
      | r # _ \<Rightarrow> (case boxes r of None \<Rightarrow> True | Some bxs \<Rightarrow> boxes_data bxs = []))"

text \<open>
  What \<open>explain\<close> relies on in the libraries it calls: \<open>cv2.cvtColor\<close> keeps the size,
  \<open>cv2.resize(src, (w, h))\<close> gives an image \<open>w\<close> wide and \<open>h\<close> high, \<open>show_cam_on_image\<close>
  gives an image of the size of \<open>img\<close> when the mask has that size, \<open>cv2.imdecode\<close> returns
  no empty image and decodes what \<open>cv2.imencode\<close> wrote to an image of the same size, and
  \<open>base64.b64decode\<close> inverts \<open>base64.b64encode\<close>.
\<close>

definition same_size :: "image \<Rightarrow> image \<Rightarrow> bool" where
  "same_size a b \<longleftrightarrow> img_height a = img_height b \<and> img_width a = img_width b"

definition library_contract :: "env \<Rightarrow> bool" where
  "library_contract env \<longleftrightarrow>
     (\<forall>a c. same_size (cvtColor env a c) a)
   \<and> (\<forall>a w h. 0 < w \<and> 0 < h \<longrightarrow>
          img_height (resize env a (w, h)) = h \<and> img_width (resize env a (w, h)) = w)
   \<and> (\<forall>img mask. same_size mask img \<longrightarrow> same_size (show_cam_on_image env img mask) img)
   \<and> (\<forall>bs a. imdecode env bs = Inr (Some a) \<longrightarrow> 0 < img_height a \<and> 0 < img_width a)
   \<and> (\<forall>a. 0 < img_height a \<and> 0 < img_width a \<longrightarrow>
          (\<exists>a'. imdecode env (imencode env ''.jpg'' a) = Inr (Some a') \<and> same_size a' a))
   \<and> (\<forall>bs. b64decode env (b64encode env bs) = Inr bs)"

text \<open>
  The steps that the specification gives for the heatmap: the frame is converted to RGB, scaled
  to \<open>[0, 1]\<close> and resized to the fixed 224 by 224 input of the model
  (\<open>saliency_input\<close>); the saliency map that the extractor returns for that input is resized
  back to the width and height of the frame (\<open>saliency_mask\<close>); the mask is blended into the
  scaled frame and the result converted back to BGR (\<open>blended_image\<close>), which is what gets
  encoded.
\<close>

definition saliency_input :: "env \<Rightarrow> image \<Rightarrow> image" where
  "saliency_input env fr =
     resize env (np_float32_div (cvtColor env fr COLOR_BGR2RGB) 255) (224, 224)"

definition saliency_mask :: "env \<Rightarrow> GradCAM \<Rightarrow> image \<Rightarrow> image" where
  "saliency_mask env cam fr =
     resize env (cam_call cam (saliency_input env fr)) (img_width fr, img_height fr)"

definition blended_image :: "env \<Rightarrow> GradCAM \<Rightarrow> image \<Rightarrow> image" where
  "blended_image env cam fr =
     cvtColor env
       (show_cam_on_image env (np_float32_div (cvtColor env fr COLOR_BGR2RGB) 255)
          (saliency_mask env cam fr))
       COLOR_RGB2BGR"

section \<open>An example deployment\<close>

text \<open>
  A small environment on which the handlers can be run: a frame string is \<open>A\<close> followed by
  the image bytes, and the image bytes are \<open>h\<close> repeated height times, \<open>w\<close> repeated
  width times and \<open>s\<close> once for every value of the image's data. The detector returns the
  rows it is built with; the extractor returns a map with one value, which the blend puts into
  the image.
\<close>

definition example_b64decode :: "string \<Rightarrow> exn + bytes" where
  "example_b64decode s =
     (case s of
        [] \<Rightarrow> Inr []
      | c # bs \<Rightarrow> if c = CHR ''A'' then Inr bs else Inl (Exn ''Incorrect padding''))"

definition example_imdecode :: "bytes \<Rightarrow> exn + image option" where
  "example_imdecode bs =
     (if bs = [] then Inl (Exn ''buffer is empty'')
      else
        (let h = length (filter (\<lambda>c. c = CHR ''h'') bs);
             w = length (filter (\<lambda>c. c = CHR ''w'') bs)
         in if h = 0 \<or> w = 0 then Inr None
            else Inr (Some \<lparr>img_height = h, img_width = w, img_channels = 3, img_data = []\<rparr>)))"

definition example_imencode :: "string \<Rightarrow> image \<Rightarrow> bytes" where
  "example_imencode ext a =
     replicate (img_height a) CHR ''h'' @ replicate (img_width a) CHR ''w''
       @ replicate (length (img_data a)) CHR ''s''"

definition example_mobilenet :: MobileNetV3 where
  "example_mobilenet = MobileNetV3 (\<lambda>a. [])"

definition example_gradcam :: "MobileNetV3 \<Rightarrow> GradCAM" where
  "example_gradcam m =
     \<lparr>cam_model = m, cam_call = (\<lambda>a. a\<lparr>img_channels := 1, img_data := [1 / 2]\<rparr>)\<rparr>"

definition example_env :: "YOLO \<Rightarrow> env" where
  "example_env y =
     \<lparr>b64decode = example_b64decode,
      imdecode = example_imdecode,
      perf_counter = (\<lambda>n. real n / 8),
      cvtColor = (\<lambda>a c. a),
      resize = (\<lambda>a (w, h). a\<lparr>img_height := h, img_width := w\<rparr>),
      show_cam_on_image = (\<lambda>img mask. img\<lparr>img_data := img_data mask\<rparr>),
      imencode = example_imencode,
      b64encode = (\<lambda>bs. CHR ''A'' # bs),
      model_path_exists = True,
      model_path_str = ''backend/models/best.pt'',
      load_YOLO = y,
      mobilenet_v3_small = example_mobilenet,
      new_GradCAM = example_gradcam\<rparr>"

definition example_names :: "int \<rightharpoonup> string" where
  "example_names = [0 \<mapsto> ''car'', 1 \<mapsto> ''truck'']"

definition example_rows :: "box_row list" where
  "example_rows =
     [\<lparr>box_xyxy = (10, 5, 30, 25), box_conf = 0.91234, box_cls = 0, box_id = 7\<rparr>,
      \<lparr>box_xyxy = (0, 0, 64, 48), box_conf = 0.5, box_cls = 5, box_id = 8\<rparr>,
      \<lparr>box_xyxy = (32, 24, 48, 36), box_conf = 0.75, box_cls = 0, box_id = 9\<rparr>]"

definition example_yolo :: "box_row list \<Rightarrow> bool \<Rightarrow> YOLO" where
  "example_yolo rows tracked =
     \<lparr>names = example_names,
      track = (\<lambda>fr c i s. [\<lparr>boxes = Some \<lparr>boxes_data = rows, is_track = tracked\<rparr>\<rparr>])\<rparr>"

definition example_frame :: string where
  "example_frame = CHR ''A'' # replicate 48 CHR ''h'' @ replicate 64 CHR ''w''"

definition example_request :: DetectRequest where
  "example_request = \<lparr>DetectRequest.frame = example_frame, conf = 0.4, iou = 0.5, imgsz = 640\<rparr>"

definition example_ready :: "YOLO \<Rightarrow> globals" where
  "example_ready y =
     \<lparr>model = Some y, explain_model = Some example_mobilenet,
      cam_extractor = Some (example_gradcam example_mobilenet)\<rparr>"

definition example_response :: DetectResponse where
  "example_response =
     \<lparr>detections =
        [\<lparr>track_id = 7, class_name = ''car'', class_id = 0, confidence = 0.9123,
          bbox = \<lparr>bbox_x = 0.3125, bbox_y = 0.3125, bbox_width = 0.3125,
                  bbox_height = 3495533 / 8388608\<rparr>\<rparr>,
         \<lparr>track_id = 8, class_name = ''class_5'', class_id = 5, confidence = 0.5,
          bbox = \<lparr>bbox_x = 0.5, bbox_y = 0.5, bbox_width = 1, bbox_height = 1\<rparr>\<rparr>,
         \<lparr>track_id = 9, class_name = ''car'', class_id = 0, confidence = 0.75,
          bbox = \<lparr>bbox_x = 0.625, bbox_y = 0.625, bbox_width = 0.25, bbox_height = 0.25\<rparr>\<rparr>],
      vehicle_count = 3,
      count_by_class = [(''car'', 2), (''class_5'', 1)],
      DetectResponse.inference_time_ms = 125,
      frame_width = 64,
      frame_height = 48,
      tracker = ''botsort''\<rparr>"

definition example_image :: image where
  "example_image = \<lparr>img_height = 48, img_width = 64, img_channels = 3, img_data = []\<rparr>"

definition example_boxes :: "box_row list \<Rightarrow> bool \<Rightarrow> Boxes" where
  "example_boxes rows t = \<lparr>boxes_data = rows, is_track = t\<rparr>"



text \<open>A frame 800 wide and 600 high, and a detector that returns the box \<open>(0, 0, 9, 6)\<close>.\<close>

definition example_frame_800 :: string where
  "example_frame_800 = CHR ''A'' # replicate 600 CHR ''h'' @ replicate 800 CHR ''w''"

definition example_image_800 :: image where
  "example_image_800 = \<lparr>img_height = 600, img_width = 800, img_channels = 3, img_data = []\<rparr>"

definition example_request_800 :: DetectRequest where
  "example_request_800 =
     \<lparr>DetectRequest.frame = example_frame_800, conf = 0.4, iou = 0.5, imgsz = 640\<rparr>"

definition example_rows_800 :: "box_row list" where
  "example_rows_800 =
     [\<lparr>box_xyxy = (0, 0, 9, 6), box_conf = 13421773 / 16777216, box_cls = 0, box_id = 1\<rparr>]"

definition example_response_800 :: DetectResponse where
  "example_response_800 =
     \<lparr>detections =
        [\<lparr>track_id = 1, class_name = ''car'', class_id = 0, confidence = 0.8,
          bbox = \<lparr>bbox_x = 3006477 / 536870912, bbox_y = 5368709 / 1073741824,
                  bbox_width = 12133283 / 1073741824, bbox_height = 5368709 / 536870912\<rparr>\<rparr>],
      vehicle_count = 1,
      count_by_class = [(''car'', 1)],
      DetectResponse.inference_time_ms = 125,
      frame_width = 800,
      frame_height = 600,
      tracker = ''botsort''\<rparr>"

definition example_explain_request :: ExplainRequest where
  "example_explain_request = \<lparr>ExplainRequest.frame = example_frame\<rparr>"

definition example_bad_request :: DetectRequest where
  "example_bad_request = \<lparr>DetectRequest.frame = ''not-base64!!'', conf = 0.4, iou = 0.5, imgsz = 640\<rparr>"

definition example_bad_explain_request :: ExplainRequest where
  "example_bad_explain_request = \<lparr>ExplainRequest.frame = ''not-base64!!''\<rparr>"

section \<open>Facts about the helpers\<close>

lemma sum_values_dict_set:
  "sum_values (dict_set d k (dict_get d k 0 + 1)) = sum_values d + 1"
  by (induction d) (auto simp: sum_values_def)

lemma parse_loop_fst:
  "fst (parse_loop nms t w h bs dets cbc) = dets @ map (parse_box nms t w h) bs"
  by (induction bs arbitrary: dets cbc) (simp_all add: Let_def)

lemma parse_loop_sum:
  "sum_values (snd (parse_loop nms t w h bs dets cbc)) = sum_values cbc + int (length bs)"
  by (induction bs arbitrary: dets cbc) (simp_all add: Let_def sum_values_dict_set)

lemma sum_values_Nil: "sum_values [] = 0"
  by (simp add: sum_values_def)

lemma parse_results_length:
  "sum_values (snd (parse_results m w h rs)) = int (length (fst (parse_results m w h rs)))"
  by (simp add: parse_results_def parse_loop_fst parse_loop_sum sum_values_Nil
      split: list.splits option.splits)

lemma detect_Inr:
  assumes "detect g env req = Inr resp"
  obtains m fr where "model g = Some m"
    and "try_decode env (DetectRequest.frame req) ''Failed to decode image'' = Inr fr"
    and "detections resp = fst (parse_results m (img_width fr) (img_height fr)
            (track m fr (conf req) (iou req) (imgsz req)))"
    and "count_by_class resp = snd (parse_results m (img_width fr) (img_height fr)
            (track m fr (conf req) (iou req) (imgsz req)))"
    and "vehicle_count resp = int (length (detections resp))"
    and "frame_width resp = img_width fr" and "frame_height resp = img_height fr"
    and "tracker resp = ''botsort''"
  using assms
  by (auto simp: detect_def Let_def split: option.splits sum.splits prod.splits)

lemmas float32_eval = np_round_def fl32_def float32_ulp_def round_to_multiple_def pow2_def
  round_half_even_def Let_def

lemma between_integers_not_four_decimals:
  assumes "of_int n < r * 10 ^ 4" and "r * 10 ^ 4 < of_int (n + 1)"
  shows "\<not> four_decimals r"
proof
  assume "four_decimals r"
  then obtain k :: int where "r = of_int k / 10 ^ 4"
    unfolding four_decimals_def by blast
  then have "r * 10 ^ 4 = of_int k"
    by simp
  then have "n < k" and "k < n + 1"
    using assms by simp_all
  then show False
    by simp
qed

lemma detect_ready:
  assumes "model g = Some m"
    and "try_decode env (DetectRequest.frame req) ''Failed to decode image'' = Inr fr"
  shows "detect g env req =
     Inr \<lparr>detections = fst (parse_results m (img_width fr) (img_height fr)
                            (track m fr (conf req) (iou req) (imgsz req))),
          vehicle_count = int (length (fst (parse_results m (img_width fr) (img_height fr)
                            (track m fr (conf req) (iou req) (imgsz req))))),
          count_by_class = snd (parse_results m (img_width fr) (img_height fr)
                            (track m fr (conf req) (iou req) (imgsz req))),
          DetectResponse.inference_time_ms =
            py_round ((perf_counter env 1 - perf_counter env 0) * 1000) 2,
          frame_width = img_width fr,
          frame_height = img_height fr,
          tracker = ''botsort''\<rparr>"
  using assms by (simp add: detect_def Let_def split: prod.splits)

lemma parse_results_boxes:
  assumes "results = r # rs" and "boxes r = Some bxs"
  shows "fst (parse_results m w h results)
       = map (parse_box (names m) (is_track bxs) w h) (boxes_data bxs)"
  using assms by (simp add: parse_results_def parse_loop_fst)

lemma detect_detections:
  assumes "model g = Some m"
    and "try_decode env (DetectRequest.frame req) ''Failed to decode image'' = Inr fr"
    and "track m fr (conf req) (iou req) (imgsz req) = r # rs"
    and "boxes r = Some bxs"
  obtains resp where "detect g env req = Inr resp"
    and "detections resp
       = map (parse_box (names m) (is_track bxs) (img_width fr) (img_height fr)) (boxes_data bxs)"
  using detect_ready [OF assms(1,2)] parse_results_boxes [OF assms(3,4)] by simp

lemma decode_fails_iff: "decode_fails env s \<longleftrightarrow> (\<exists>e. try_decode env s msg = Inl e)"
  by (auto simp: decode_fails_def try_decode_def split: sum.splits option.splits)

lemma decode_ok_iff: "\<not> decode_fails env s \<longleftrightarrow> (\<exists>fr. try_decode env s msg = Inr fr)"
  by (auto simp: decode_fails_def try_decode_def split: sum.splits option.splits)

lemma detect_unloaded: "model g = None \<Longrightarrow> detect g env req = Inl (HTTPException 503 ''Model not loaded'')"
  by (simp add: detect_def)

lemma explain_unloaded:
  "cam_extractor g = None \<Longrightarrow>
   explain g env req = Inl (HTTPException 503 ''Explainability model not loaded'')"
  by (simp add: explain_def)

lemma detect_bad_frame:
  assumes "model g = Some m"
    and "try_decode env (DetectRequest.frame req) ''Failed to decode image'' = Inl e"
  shows "detect g env req = Inl (HTTPException 400 (''Invalid frame data: '' @ exn_str e))"
  using assms by (simp add: detect_def)

lemma explain_bad_frame:
  assumes "cam_extractor g = Some cam"
    and "try_decode env (ExplainRequest.frame req) ''Failed to decode'' = Inl e"
  shows "explain g env req = Inl (HTTPException 400 (''Invalid frame: '' @ exn_str e))"
  using assms by (simp add: explain_def)

lemma explain_ready:
  assumes "cam_extractor g = Some cam"
    and "try_decode env (ExplainRequest.frame req) ''Failed to decode'' = Inr fr"
  shows "explain g env req =
     Inr \<lparr>heatmap = snd (snd (snd (render_heatmap env cam fr))),
          inference_time_ms = py_round ((perf_counter env 1 - perf_counter env 0) * 1000) 2\<rparr>"
  using assms by (simp add: explain_def Let_def split: prod.splits)

lemma py_int_nonneg: "0 \<le> v \<Longrightarrow> 0 \<le> py_int v"
  by (simp add: py_int_def)

lemma lifespan_startup_sets:
  assumes "lifespan_startup env g0 = Inr g"
  shows "model g = Some (load_YOLO env)"
    and "explain_model g = Some (mobilenet_v3_small env)"
    and "cam_extractor g = Some (new_GradCAM env (mobilenet_v3_small env))"
  using assms by (auto simp: lifespan_startup_def Let_def split: if_splits)

lemma parse_results_no_boxes: "no_boxes results \<Longrightarrow> parse_results m w h results = ([], [])"
  by (auto simp: no_boxes_def parse_results_def split: list.splits option.splits)

lemma try_decode_positive:
  assumes "library_contract env" and "try_decode env s msg = Inr fr"
  shows "0 < img_height fr \<and> 0 < img_width fr"
proof -
  obtain bs where "imdecode env bs = Inr (Some fr)"
    using assms(2) by (auto simp: try_decode_def split: sum.splits option.splits)
  then show ?thesis
    using assms(1) unfolding library_contract_def by blast
qed

lemma np_float32_div_size: "same_size (np_float32_div a c) a"
  by (simp add: np_float32_div_def same_size_def)

lemma same_size_trans: "same_size a b \<Longrightarrow> same_size b c \<Longrightarrow> same_size a c"
  by (simp add: same_size_def)

lemma render_heatmap_steps:
  "render_heatmap env cam fr =
     (saliency_input env fr, saliency_mask env cam fr, blended_image env cam fr,
      b64encode env (imencode env ''.jpg'' (blended_image env cam fr)))"
  by (simp add: render_heatmap_def saliency_input_def saliency_mask_def blended_image_def Let_def)

lemma render_heatmap_sizes:
  assumes c: "library_contract env"
    and pos: "0 < img_height fr" "0 < img_width fr"
    and r: "render_heatmap env cam fr = (input_tensor, grayscale_cam_resized, vis_bgr, b64_str)"
  shows "img_height input_tensor = 224 \<and> img_width input_tensor = 224"
    and "same_size grayscale_cam_resized fr"
    and "same_size vis_bgr fr"
    and "b64_str = b64encode env (imencode env ''.jpg'' vis_bgr)"
proof -
  define rgb_frame_float where "rgb_frame_float = np_float32_div (cvtColor env fr COLOR_BGR2RGB) 255"
  have cvt: "same_size (cvtColor env a cc) a" for a cc
    using c unfolding library_contract_def by blast
  have rs: "img_height (resize env a (w, h)) = h \<and> img_width (resize env a (w, h)) = w"
    if "0 < w" "0 < h" for a w h
    using c that unfolding library_contract_def by blast
  have sc: "same_size (show_cam_on_image env img mask) img" if "same_size mask img" for img mask
    using c that unfolding library_contract_def by blast
  have it: "input_tensor = resize env rgb_frame_float (224, 224)"
    and gc: "grayscale_cam_resized
          = resize env (cam_call cam (resize env rgb_frame_float (224, 224)))
              (img_width fr, img_height fr)"
    and vb: "vis_bgr = cvtColor env (show_cam_on_image env rgb_frame_float grayscale_cam_resized)
              COLOR_RGB2BGR"
    and bs: "b64_str = b64encode env (imencode env ''.jpg'' vis_bgr)"
    using r unfolding render_heatmap_def Let_def rgb_frame_float_def by auto
  have f: "same_size rgb_frame_float fr"
    unfolding rgb_frame_float_def by (rule same_size_trans [OF np_float32_div_size cvt])
  show "img_height input_tensor = 224 \<and> img_width input_tensor = 224"
    unfolding it by (rule rs) simp_all
  show m: "same_size grayscale_cam_resized fr"
    unfolding gc using rs [OF pos(2) pos(1)] by (simp add: same_size_def)
  have "same_size grayscale_cam_resized rgb_frame_float"
    using m f by (simp add: same_size_def)
  then have "same_size (show_cam_on_image env rgb_frame_float grayscale_cam_resized) fr"
    using sc f same_size_trans by blast
  then show "same_size vis_bgr fr"
    unfolding vb using cvt same_size_trans by blast
  show "b64_str = b64encode env (imencode env ''.jpg'' vis_bgr)"
    by (rule bs)
qed

section \<open>The example deployment, evaluated\<close>

lemma example_startup: "lifespan_startup (example_env y) module_globals = Inr (example_ready y)"
  by (simp add: example_ready_def lifespan_startup_def example_env_def module_globals_def Let_def)

lemma example_decode:
  "try_decode (example_env y) example_frame msg =
     Inr \<lparr>img_height = 48, img_width = 64, img_channels = 3, img_data = []\<rparr>"
  by (simp add: try_decode_def example_env_def example_frame_def example_b64decode_def
      example_imdecode_def)

lemma example_ready_model: "model (example_ready y) = Some y"
  by (simp add: example_ready_def)

lemma example_parse:
  "parse_results (example_yolo example_rows True) 64 48 [\<lparr>boxes = Some \<lparr>boxes_data = example_rows, is_track = True\<rparr>\<rparr>]
    = (detections example_response, count_by_class example_response)"
  by (simp add: example_yolo_def parse_results_def example_rows_def parse_box_def
      example_names_def py_int_def str_int_def py_round_def round_half_even_def
      example_response_def Let_def)
    (simp add: float32_eval)

lemma example_detect:
  "detect (example_ready (example_yolo example_rows True))
     (example_env (example_yolo example_rows True)) example_request = Inr example_response"
proof -
  have t: "track (example_yolo example_rows True) fr c i s = [\<lparr>boxes = Some \<lparr>boxes_data = example_rows, is_track = True\<rparr>\<rparr>]" for fr c i s
    by (simp add: example_yolo_def)
  have p: "perf_counter (example_env y) n = real n / 8" for y n
    by (simp add: example_env_def)
  show ?thesis
    by (simp add: detect_def example_ready_model example_request_def example_decode t p
        example_parse py_round_def round_half_even_def)
      (simp add: example_response_def)
qed

lemma example_request_decode:
  "try_decode (example_env y) (DetectRequest.frame example_request) msg = Inr example_image"
  by (simp add: example_request_def example_decode example_image_def)

lemma example_track:
  "track (example_yolo rows t) fr c i s = [\<lparr>boxes = Some (example_boxes rows t)\<rparr>]"
  by (simp add: example_yolo_def example_boxes_def)

lemma example_results_boxes: "boxes \<lparr>boxes = Some bxs\<rparr> = Some bxs"
  by simp

lemma example_image_size: "0 < img_width example_image" "0 < img_height example_image"
  "img_width example_image = 64" "img_height example_image = 48"
  by (simp_all add: example_image_def)

lemma example_boxes_sel: "boxes_data (example_boxes rows t) = rows" "is_track (example_boxes rows t) = t"
  by (simp_all add: example_boxes_def)


lemma example_request_decode_800:
  "try_decode (example_env y) (DetectRequest.frame example_request_800) msg = Inr example_image_800"
  by (simp add: try_decode_def example_env_def example_request_800_def example_frame_800_def
      example_b64decode_def example_imdecode_def example_image_800_def)

lemma example_detect_800:
  "detect (example_ready (example_yolo example_rows_800 True))
     (example_env (example_yolo example_rows_800 True)) example_request_800
   = Inr example_response_800"
proof -
  have p: "parse_results (example_yolo example_rows_800 True) 800 600
             [\<lparr>boxes = Some (example_boxes example_rows_800 True)\<rparr>]
           = (detections example_response_800, count_by_class example_response_800)"
    by (simp add: example_yolo_def parse_results_def example_rows_800_def parse_box_def
        example_names_def py_int_def str_int_def py_round_def round_half_even_def
        example_response_800_def example_boxes_def Let_def)
      (simp add: float32_eval)
  have t: "perf_counter (example_env y) n = real n / 8" for y n
    by (simp add: example_env_def)
  have sz: "img_width example_image_800 = 800" "img_height example_image_800 = 600"
    by (simp_all add: example_image_800_def)
  show ?thesis
    by (simp add: detect_ready [OF example_ready_model example_request_decode_800] example_track
        sz p t py_round_def round_half_even_def)
      (simp add: example_response_800_def)
qed

lemma example_bad_decode:
  "decode_fails (example_env y) (DetectRequest.frame example_bad_request)"
  "decode_fails (example_env y) (ExplainRequest.frame example_bad_explain_request)"
  by (simp_all add: decode_fails_def example_env_def example_b64decode_def
      example_bad_request_def example_bad_explain_request_def)

lemma example_bad_try_decode:
  "try_decode (example_env y) ''not-base64!!'' msg = Inl (Exn ''Incorrect padding'')"
  by (simp add: try_decode_def example_env_def example_b64decode_def)

lemma example_ready_cam:
  "cam_extractor (example_ready y) = Some (example_gradcam example_mobilenet)"
  by (simp add: example_ready_def)

lemma module_globals_sel: "model module_globals = None" "explain_model module_globals = None"
  "cam_extractor module_globals = None"
  by (simp_all add: module_globals_def)

lemma example_codec:
  assumes "0 < img_height a" and "0 < img_width a"
  shows "example_imdecode (example_imencode ext a)
       = Inr (Some \<lparr>img_height = img_height a, img_width = img_width a,
                     img_channels = 3, img_data = []\<rparr>)"
  using assms by (simp add: example_imdecode_def example_imencode_def)

lemma example_imdecode_positive:
  "example_imdecode bs = Inr (Some a) \<Longrightarrow> 0 < img_height a \<and> 0 < img_width a"
  by (auto simp: example_imdecode_def Let_def split: if_splits)

lemma example_contract: "library_contract (example_env y)"
  unfolding library_contract_def
proof (intro conjI allI impI)
  fix a c show "same_size (cvtColor (example_env y) a c) a"
    by (simp add: example_env_def same_size_def)
next
  fix a and w h :: nat
  assume "0 < w \<and> 0 < h"
  show "img_height (resize (example_env y) a (w, h)) = h"
    by (simp add: example_env_def)
  show "img_width (resize (example_env y) a (w, h)) = w"
    by (simp add: example_env_def)
next
  fix img mask assume "same_size mask img"
  show "same_size (show_cam_on_image (example_env y) img mask) img"
    by (simp add: example_env_def same_size_def)
next
  fix bs a assume "imdecode (example_env y) bs = Inr (Some a)"
  then have "example_imdecode bs = Inr (Some a)"
    by (simp add: example_env_def)
  then show "0 < img_height a" "0 < img_width a"
    using example_imdecode_positive by blast+
next
  fix a :: image assume "0 < img_height a \<and> 0 < img_width a"
  then have "imdecode (example_env y) (imencode (example_env y) ''.jpg'' a)
       = Inr (Some \<lparr>img_height = img_height a, img_width = img_width a,
                     img_channels = 3, img_data = []\<rparr>)"
    by (simp add: example_env_def example_codec)
  then show "\<exists>a'. imdecode (example_env y) (imencode (example_env y) ''.jpg'' a) = Inr (Some a')
          \<and> same_size a' a"
    by (simp add: same_size_def)
next
  fix bs show "b64decode (example_env y) (b64encode (example_env y) bs) = Inr bs"
    by (simp add: example_env_def example_b64decode_def)
qed

lemma example_explain_decode:
  "try_decode (example_env y) (ExplainRequest.frame example_explain_request) msg = Inr example_image"
  by (simp add: example_explain_request_def example_decode example_image_def)

section \<open>Detection batches\<close>

text \<open>
  C1. Every response that \<open>detect\<close> returns has \<open>sum(count_by_class.values())\<close> equal to
  \<open>vehicle_count\<close>, and \<open>vehicle_count\<close> equal to the length of \<open>detections\<close>.
\<close>

theorem detect_count_invariant:
  assumes "detect g env req = Inr resp"
  shows "sum_values (count_by_class resp) = vehicle_count resp
       \<and> vehicle_count resp = int (length (detections resp))"
  using assms by (elim detect_Inr) (simp add: parse_results_length)

theorem detect_count_invariant_witness:
  "detect (example_ready (example_yolo example_rows True))
     (example_env (example_yolo example_rows True)) example_request = Inr example_response
   \<and> sum_values (count_by_class example_response) = 3
   \<and> vehicle_count example_response = 3
   \<and> length (detections example_response) = 3"
  using detect_count_invariant [OF example_detect] example_detect
  by (simp add: example_response_def)

section \<open>Normalised boxes\<close>

text \<open>
  C2. The box \<open>(0, 0, 9, 6)\<close> on a frame 800 wide and 600 high has the width
  \<open>9 / 800 = 0.01125\<close>. The response carries \<open>12133283 / 2\<^sup>3\<^sup>0\<close>, which a Python float
  prints as \<open>0.011300000362098217\<close>: the quotient, the product with \<open>10000\<close> and the
  quotient by \<open>10000\<close> are each rounded to binary32, and the result is the binary32 value next
  to \<open>0.0113\<close>. It is not a whole number of units \<open>10\<^sup>-\<^sup>4\<close>, so it is not \<open>0.01125\<close> rounded to
  4 decimal places. The confidence of the same detection, which goes through \<open>float()\<close> before
  \<open>round\<close>, is \<open>0.8\<close>.
\<close>

theorem detect_bbox_float32:
  "detect (example_ready (example_yolo example_rows_800 True))
     (example_env (example_yolo example_rows_800 True)) example_request_800
   = Inr example_response_800
   \<and> box_xyxy (example_rows_800 ! 0) = (0, 0, 9, 6)
   \<and> frame_width example_response_800 = 800
   \<and> frame_height example_response_800 = 600
   \<and> bbox_width (bbox (detections example_response_800 ! 0)) = 12133283 / 1073741824
   \<and> \<not> four_decimals (bbox_width (bbox (detections example_response_800 ! 0)))
   \<and> \<not> rounded_to 4 ((9 - 0) / 800) (bbox_width (bbox (detections example_response_800 ! 0)))
   \<and> confidence (detections example_response_800 ! 0) = 8 / 10
   \<and> four_decimals (confidence (detections example_response_800 ! 0))"
proof -
  have w: "bbox_width (bbox (detections example_response_800 ! 0)) = 12133283 / 1073741824"
    and c: "confidence (detections example_response_800 ! 0) = 8 / 10"
    by (simp_all add: example_response_800_def)
  have n: "\<not> four_decimals (12133283 / 1073741824)"
    by (rule between_integers_not_four_decimals [of 113]) simp_all
  then have r: "\<not> rounded_to 4 ((9 - 0) / 800) (12133283 / 1073741824)"
    by (simp add: rounded_to_def four_decimals_def)
  have "(8 / 10 :: real) = of_int 8000 / 10 ^ 4"
    by simp
  then have f: "four_decimals (8 / 10)"
    unfolding four_decimals_def by blast
  show ?thesis
    using example_detect_800 n r f
    by (simp add: w c) (simp add: example_response_800_def example_rows_800_def)
qed


section \<open>Track ids and class names\<close>

text \<open>
  C8. Detection \<open>i\<close> of a response has an integer \<open>track_id\<close>: the sentinel \<open>-1\<close> when
  \<open>boxes.id\<close> is \<open>None\<close>, and \<open>int(boxes.id[i])\<close> otherwise, which is non-negative (so never
  the sentinel) for the non-negative ids that a tracker assigns. Its \<open>class_name\<close> is the entry
  of \<open>model.names\<close> for its \<open>class_id\<close>, and \<open>class_\<close> followed by the id when the table has
  none; the request succeeds either way.
\<close>

theorem detect_track_id_class_name:
  assumes "model g = Some m"
    and "try_decode env (DetectRequest.frame req) ''Failed to decode image'' = Inr fr"
    and "track m fr (conf req) (iou req) (imgsz req) = r # rs"
    and "boxes r = Some bxs"
    and "i < length (boxes_data bxs)"
  shows "\<exists>resp. detect g env req = Inr resp
       \<and> length (detections resp) = length (boxes_data bxs)
       \<and> track_id (detections resp ! i)
           = (if is_track bxs then py_int (box_id (boxes_data bxs ! i)) else - 1)
       \<and> (0 \<le> box_id (boxes_data bxs ! i) \<longrightarrow>
            (track_id (detections resp ! i) = - 1 \<longleftrightarrow> \<not> is_track bxs)
          \<and> (is_track bxs \<longrightarrow> 0 \<le> track_id (detections resp ! i)))
       \<and> class_id (detections resp ! i) = py_int (box_cls (boxes_data bxs ! i))
       \<and> class_name (detections resp ! i)
           = (case names m (class_id (detections resp ! i)) of
                Some n \<Rightarrow> n
              | None \<Rightarrow> ''class_'' @ str_int (class_id (detections resp ! i)))"
proof -
  obtain resp where ok: "detect g env req = Inr resp"
    and dets: "detections resp
       = map (parse_box (names m) (is_track bxs) (img_width fr) (img_height fr)) (boxes_data bxs)"
    using assms(1-4) by (rule detect_detections)
  have d: "detections resp ! i
       = parse_box (names m) (is_track bxs) (img_width fr) (img_height fr) (boxes_data bxs ! i)"
    using assms(5) by (simp add: dets)
  have len: "length (detections resp) = length (boxes_data bxs)"
    by (simp add: dets)
  have tid: "track_id (detections resp ! i)
           = (if is_track bxs then py_int (box_id (boxes_data bxs ! i)) else - 1)"
    by (simp add: d parse_box_def Let_def split: prod.splits)
  have sentinel: "(track_id (detections resp ! i) = - 1 \<longleftrightarrow> \<not> is_track bxs)
          \<and> (is_track bxs \<longrightarrow> 0 \<le> track_id (detections resp ! i))"
    if "0 \<le> box_id (boxes_data bxs ! i)"
    using py_int_nonneg [OF that] by (auto simp: tid)
  have cid: "class_id (detections resp ! i) = py_int (box_cls (boxes_data bxs ! i))"
    by (simp add: d parse_box_def Let_def split: prod.splits)
  have cname: "class_name (detections resp ! i)
           = (case names m (class_id (detections resp ! i)) of
                Some n \<Rightarrow> n
              | None \<Rightarrow> ''class_'' @ str_int (class_id (detections resp ! i)))"
    unfolding cid by (simp add: d parse_box_def Let_def split: prod.splits)
  show ?thesis
    using ok len tid sentinel cid cname by blast
qed

text \<open>
  The second row of the example has class 5, which the table does not name, and id 8; without
  ids from the tracker the same row gets \<open>-1\<close>.
\<close>

theorem detect_track_id_class_name_witness:
  "box_id (example_rows ! 1) = 8 \<and> box_cls (example_rows ! 1) = 5
   \<and> names (example_yolo example_rows True) 5 = None
   \<and> detect (example_ready (example_yolo example_rows True))
        (example_env (example_yolo example_rows True)) example_request = Inr example_response
   \<and> track_id (detections example_response ! 1) = 8
   \<and> class_id (detections example_response ! 1) = 5
   \<and> class_name (detections example_response ! 1) = ''class_5''
   \<and> (\<exists>resp. detect (example_ready (example_yolo example_rows False))
          (example_env (example_yolo example_rows False)) example_request = Inr resp
        \<and> track_id (detections resp ! 1) = - 1
        \<and> class_name (detections resp ! 1) = ''class_5'')"
proof -
  have len: "1 < length (boxes_data (example_boxes example_rows t))" for t
    by (simp add: example_rows_def example_boxes_sel)
  have row: "box_id (example_rows ! 1) = 8" "box_cls (example_rows ! 1) = 5"
    by (simp_all add: example_rows_def)
  have nm: "names (example_yolo example_rows t) 5 = None" for t
    by (simp add: example_yolo_def example_names_def)
  have cls: "py_int 5 = 5" "py_int 8 = 8" "str_int 5 = ''5''"
    by (simp_all add: py_int_def str_int_def)
  from detect_track_id_class_name [OF example_ready_model
      example_request_decode [of "example_yolo example_rows False"] example_track
      example_results_boxes len [of False]]
  obtain resp where untracked:
    "detect (example_ready (example_yolo example_rows False))
       (example_env (example_yolo example_rows False)) example_request = Inr resp"
    "track_id (detections resp ! 1)
       = (if is_track (example_boxes example_rows False)
          then py_int (box_id (boxes_data (example_boxes example_rows False) ! 1)) else - 1)"
    "class_id (detections resp ! 1)
       = py_int (box_cls (boxes_data (example_boxes example_rows False) ! 1))"
    "class_name (detections resp ! 1)
       = (case names (example_yolo example_rows False) (class_id (detections resp ! 1)) of
            Some n \<Rightarrow> n
          | None \<Rightarrow> ''class_'' @ str_int (class_id (detections resp ! 1)))"
    by blast
  have u3: "class_id (detections resp ! 1) = 5"
    using untracked(3) by (simp only: example_boxes_sel row cls)
  have "track_id (detections resp ! 1) = - 1"
    using untracked(2) by (simp only: example_boxes_sel if_False)
  moreover have "class_name (detections resp ! 1) = ''class_5''"
    using untracked(4) unfolding u3 by (simp add: nm cls)
  ultimately have second:
    "\<exists>resp. detect (example_ready (example_yolo example_rows False))
          (example_env (example_yolo example_rows False)) example_request = Inr resp
        \<and> track_id (detections resp ! 1) = - 1
        \<and> class_name (detections resp ! 1) = ''class_5''"
    using untracked(1) by blast
  from detect_track_id_class_name [OF example_ready_model
      example_request_decode [of "example_yolo example_rows True"] example_track
      example_results_boxes len [of True]]
  obtain resp' where tracked:
    "detect (example_ready (example_yolo example_rows True))
       (example_env (example_yolo example_rows True)) example_request = Inr resp'"
    "track_id (detections resp' ! 1)
       = (if is_track (example_boxes example_rows True)
          then py_int (box_id (boxes_data (example_boxes example_rows True) ! 1)) else - 1)"
    by blast
  have "resp' = example_response"
    using tracked(1) example_detect by simp
  moreover have "track_id (detections resp' ! 1) = 8"
    using tracked(2) by (simp only: example_boxes_sel if_True row cls)
  moreover have "class_id (detections example_response ! 1) = 5"
    "class_name (detections example_response ! 1) = ''class_5''"
    by (simp_all add: example_response_def)
  ultimately show ?thesis
    using row nm [of True] example_detect second by simp
qed

section \<open>The heatmap\<close>

text \<open>
  C7. For a frame that decodes to width \<open>w\<close> and height \<open>h\<close>, \<open>explain\<close> returns as heatmap the
  base64 string of the encoded \<open>blended_image\<close>: the extractor is called on the 224 by 224
  \<open>saliency_input\<close>, its map is resized to \<open>w\<close> by \<open>h\<close> (\<open>saliency_mask\<close>) and blended into the
  frame, and the blend has the size of the frame. The string decodes (base64, then image) to
  an image of width \<open>w\<close> and height \<open>h\<close>. The libraries are taken to keep their contract.
\<close>

theorem explain_heatmap_size:
  assumes "library_contract env"
    and "cam_extractor g = Some cam"
    and "try_decode env (ExplainRequest.frame req) ''Failed to decode'' = Inr fr"
  shows "\<exists>resp vis. explain g env req = Inr resp
       \<and> heatmap resp = b64encode env (imencode env ''.jpg'' (blended_image env cam fr))
       \<and> img_width (saliency_input env fr) = 224 \<and> img_height (saliency_input env fr) = 224
       \<and> img_width (saliency_mask env cam fr) = img_width fr
       \<and> img_height (saliency_mask env cam fr) = img_height fr
       \<and> img_width (blended_image env cam fr) = img_width fr
       \<and> img_height (blended_image env cam fr) = img_height fr
       \<and> try_decode env (heatmap resp) ''Failed to decode'' = Inr vis
       \<and> img_width vis = img_width fr \<and> img_height vis = img_height fr"
proof -
  have pos: "0 < img_height fr" "0 < img_width fr"
    using try_decode_positive [OF assms(1,3)] by simp_all
  note s = render_heatmap_sizes [OF assms(1) pos render_heatmap_steps]
  define resp where "resp =
     \<lparr>heatmap = b64encode env (imencode env ''.jpg'' (blended_image env cam fr)),
      inference_time_ms = py_round ((perf_counter env 1 - perf_counter env 0) * 1000) 2\<rparr>"
  have ok: "explain g env req = Inr resp"
    by (simp add: explain_ready [OF assms(2,3)] render_heatmap_steps resp_def)
  have hm: "heatmap resp = b64encode env (imencode env ''.jpg'' (blended_image env cam fr))"
    by (simp add: resp_def)
  have "0 < img_height (blended_image env cam fr) \<and> 0 < img_width (blended_image env cam fr)"
    using s(3) pos by (simp add: same_size_def)
  then obtain vis
    where dec: "imdecode env (imencode env ''.jpg'' (blended_image env cam fr)) = Inr (Some vis)"
      and vs: "same_size vis (blended_image env cam fr)"
    using assms(1) unfolding library_contract_def by blast
  have b64: "b64decode env (b64encode env (imencode env ''.jpg'' (blended_image env cam fr)))
      = Inr (imencode env ''.jpg'' (blended_image env cam fr))"
    using assms(1) unfolding library_contract_def by blast
  have td: "try_decode env (heatmap resp) ''Failed to decode'' = Inr vis"
    by (simp add: try_decode_def hm b64 dec)
  have sz: "img_width vis = img_width fr \<and> img_height vis = img_height fr"
    using vs s(3) by (simp add: same_size_def)
  show ?thesis
    using ok hm td sz s(1,2,3) by (auto simp: same_size_def)
qed

text \<open>
  The 64 by 48 frame of the example: the heatmap string has the \<open>s\<close> of the extractor's
  map.
\<close>

theorem explain_heatmap_size_witness:
  "library_contract (example_env (example_yolo example_rows True))
   \<and> try_decode (example_env (example_yolo example_rows True))
        (ExplainRequest.frame example_explain_request) ''Failed to decode'' = Inr example_image
   \<and> img_width example_image = 64 \<and> img_height example_image = 48
   \<and> (\<exists>resp vis. explain (example_ready (example_yolo example_rows True))
          (example_env (example_yolo example_rows True)) example_explain_request = Inr resp
        \<and> heatmap resp = CHR ''A'' # replicate 48 CHR ''h'' @ replicate 64 CHR ''w'' @ ''s''
        \<and> try_decode (example_env (example_yolo example_rows True)) (heatmap resp)
             ''Failed to decode'' = Inr vis
        \<and> img_width vis = 64 \<and> img_height vis = 48)"
proof -
  let ?y = "example_yolo example_rows True"
  have b: "b64encode (example_env ?y) (imencode (example_env ?y) ''.jpg''
             (blended_image (example_env ?y) (example_gradcam example_mobilenet) example_image))
           = CHR ''A'' # replicate 48 CHR ''h'' @ replicate 64 CHR ''w'' @ ''s''"
    by (simp add: blended_image_def saliency_mask_def saliency_input_def np_float32_div_def
        example_env_def example_gradcam_def example_image_def example_imencode_def)
  from explain_heatmap_size [OF example_contract example_ready_cam example_explain_decode,
      of ?y ?y]
  obtain resp vis where
    "explain (example_ready ?y) (example_env ?y) example_explain_request = Inr resp"
    "heatmap resp = b64encode (example_env ?y) (imencode (example_env ?y) ''.jpg''
       (blended_image (example_env ?y) (example_gradcam example_mobilenet) example_image))"
    "try_decode (example_env ?y) (heatmap resp) ''Failed to decode'' = Inr vis"
    "img_width vis = img_width example_image" "img_height vis = img_height example_image"
    by blast
  then show ?thesis
    using example_contract [of ?y] example_explain_decode [of ?y] b
    by (auto simp: example_image_size)
qed

section \<open>Errors\<close>

text \<open>
  C4, as the code has it. A request whose frame cannot be decoded gets no detections and no
  heatmap. When the handler's model is loaded (\<open>model\<close> for \<open>detect\<close>, \<open>cam_extractor\<close> for
  \<open>explain\<close>) the answer is \<open>HTTPException 400\<close> with the detail \<open>Invalid frame data: ...\<close> or
  \<open>Invalid frame: ...\<close>; when it is not, the check of the model comes first and the answer is
  503.
\<close>

theorem decode_failure_response:
  assumes "decode_fails env (DetectRequest.frame dreq)"
    and "decode_fails env (ExplainRequest.frame ereq)"
  shows "(case model g of
            None \<Rightarrow> detect g env dreq = Inl (HTTPException 503 ''Model not loaded'')
          | Some m \<Rightarrow> (\<exists>msg. detect g env dreq = Inl (HTTPException 400 (''Invalid frame data: '' @ msg))))
       \<and> (case cam_extractor g of
            None \<Rightarrow> explain g env ereq = Inl (HTTPException 503 ''Explainability model not loaded'')
          | Some cam \<Rightarrow> (\<exists>msg. explain g env ereq = Inl (HTTPException 400 (''Invalid frame: '' @ msg))))
       \<and> (\<forall>resp. detect g env dreq \<noteq> Inr resp)
       \<and> (\<forall>resp. explain g env ereq \<noteq> Inr resp)"
proof -
  obtain e1 where e1: "try_decode env (DetectRequest.frame dreq) ''Failed to decode image'' = Inl e1"
    using assms(1) decode_fails_iff by blast
  obtain e2 where e2: "try_decode env (ExplainRequest.frame ereq) ''Failed to decode'' = Inl e2"
    using assms(2) decode_fails_iff by blast
  have d: "case model g of
            None \<Rightarrow> detect g env dreq = Inl (HTTPException 503 ''Model not loaded'')
          | Some m \<Rightarrow> (\<exists>msg. detect g env dreq = Inl (HTTPException 400 (''Invalid frame data: '' @ msg)))"
    by (auto simp: detect_unloaded detect_bad_frame [OF _ e1] split: option.splits)
  have x: "case cam_extractor g of
            None \<Rightarrow> explain g env ereq = Inl (HTTPException 503 ''Explainability model not loaded'')
          | Some cam \<Rightarrow> (\<exists>msg. explain g env ereq = Inl (HTTPException 400 (''Invalid frame: '' @ msg)))"
    by (auto simp: explain_unloaded explain_bad_frame [OF _ e2] split: option.splits)
  have nd: "\<forall>resp. detect g env dreq \<noteq> Inr resp"
    using d by (auto split: option.splits)
  have nx: "\<forall>resp. explain g env ereq \<noteq> Inr resp"
    using x by (auto split: option.splits)
  show ?thesis using d x nd nx by blast
qed

text \<open>The frame \<open>not-base64!!\<close> with both models loaded.\<close>

theorem decode_failure_response_witness:
  "decode_fails (example_env (example_yolo example_rows True)) (DetectRequest.frame example_bad_request)
   \<and> decode_fails (example_env (example_yolo example_rows True))
        (ExplainRequest.frame example_bad_explain_request)
   \<and> detect (example_ready (example_yolo example_rows True))
        (example_env (example_yolo example_rows True)) example_bad_request
       = Inl (HTTPException 400 ''Invalid frame data: Incorrect padding'')
   \<and> explain (example_ready (example_yolo example_rows True))
        (example_env (example_yolo example_rows True)) example_bad_explain_request
       = Inl (HTTPException 400 ''Invalid frame: Incorrect padding'')"
proof -
  let ?y = "example_yolo example_rows True"
  from decode_failure_response [where g = "example_ready ?y", OF example_bad_decode [of ?y]]
  obtain m1 m2 where
    d: "detect (example_ready ?y) (example_env ?y) example_bad_request
          = Inl (HTTPException 400 (''Invalid frame data: '' @ m1))"
    and x: "explain (example_ready ?y) (example_env ?y) example_bad_explain_request
          = Inl (HTTPException 400 (''Invalid frame: '' @ m2))"
    by (auto simp: example_ready_model example_ready_cam)
  have "detect (example_ready ?y) (example_env ?y) example_bad_request
          = Inl (HTTPException 400 (''Invalid frame data: '' @ ''Incorrect padding''))"
    by (simp add: detect_def example_ready_model example_bad_request_def example_bad_try_decode)
  moreover have "explain (example_ready ?y) (example_env ?y) example_bad_explain_request
          = Inl (HTTPException 400 (''Invalid frame: '' @ ''Incorrect padding''))"
    by (simp add: explain_def example_ready_cam example_bad_explain_request_def
        example_bad_try_decode)
  ultimately show ?thesis
    using example_bad_decode [of ?y] d x by simp
qed

text \<open>The same frame before the models are loaded: 503, not 400.\<close>

theorem decode_failure_response_counterexample:
  "decode_fails (example_env (example_yolo example_rows True)) (DetectRequest.frame example_bad_request)
   \<and> decode_fails (example_env (example_yolo example_rows True))
        (ExplainRequest.frame example_bad_explain_request)
   \<and> detect module_globals (example_env (example_yolo example_rows True)) example_bad_request
       = Inl (HTTPException 503 ''Model not loaded'')
   \<and> explain module_globals (example_env (example_yolo example_rows True))
        example_bad_explain_request
       = Inl (HTTPException 503 ''Explainability model not loaded'')"
  by (simp add: example_bad_decode detect_def explain_def module_globals_sel)

text \<open>
  C5. While the globals are \<open>None\<close>, \<open>detect\<close> and \<open>explain\<close> raise \<open>HTTPException 503\<close>, and
  \<open>health_check\<close> returns its dictionary with \<open>model_loaded\<close> false.
\<close>

theorem unloaded_service_unavailable:
  assumes "model g = None" and "cam_extractor g = None"
  shows "detect g env dreq = Inl (HTTPException 503 ''Model not loaded'')
       \<and> explain g env ereq = Inl (HTTPException 503 ''Explainability model not loaded'')
       \<and> health_check g =
           [(''status'', Str ''ok''), (''model_loaded'', Bool False),
            (''model_path'', Str ''best.pt''), (''tracker'', Str ''botsort'')]"
  using assms by (simp add: detect_unloaded explain_unloaded health_check_def)

text \<open>The module-level globals, before \<open>lifespan\<close> has run, and a frame that decodes.\<close>

theorem unloaded_service_unavailable_witness:
  "model module_globals = None \<and> cam_extractor module_globals = None
   \<and> try_decode (example_env (example_yolo example_rows True))
         (DetectRequest.frame example_request) ''Failed to decode image'' = Inr example_image
   \<and> detect module_globals (example_env (example_yolo example_rows True)) example_request
       = Inl (HTTPException 503 ''Model not loaded'')
   \<and> explain module_globals (example_env (example_yolo example_rows True)) example_explain_request
       = Inl (HTTPException 503 ''Explainability model not loaded'')
   \<and> health_check module_globals =
           [(''status'', Str ''ok''), (''model_loaded'', Bool False),
            (''model_path'', Str ''best.pt''), (''tracker'', Str ''botsort'')]"
  using unloaded_service_unavailable [OF module_globals_sel(1) module_globals_sel(3),
      of "example_env (example_yolo example_rows True)" example_request example_explain_request]
    module_globals_sel example_request_decode
  by simp

text \<open>
  C9. A handler returns either an \<open>HTTPException\<close>, which holds a status code (503 or 400) and a
  detail string and nothing else, or a response: for \<open>detect\<close> with \<open>vehicle_count\<close> the length
  of \<open>detections\<close>, the counts summing to it and \<open>tracker\<close> set, for \<open>explain\<close> with the
  heatmap. When the detector finds nothing, \<open>detect\<close> returns a response with no detections,
  \<open>vehicle_count\<close> 0 and an empty \<open>count_by_class\<close>.
\<close>

theorem response_or_error:
  "(case detect g env dreq of
      Inl e \<Rightarrow> (status_code e = 503 \<and> model g = None)
             \<or> (status_code e = 400 \<and> decode_fails env (DetectRequest.frame dreq))
    | Inr resp \<Rightarrow>
        (\<exists>m. model g = Some m) \<and> \<not> decode_fails env (DetectRequest.frame dreq)
      \<and> vehicle_count resp = int (length (detections resp))
      \<and> sum_values (count_by_class resp) = vehicle_count resp
      \<and> tracker resp = ''botsort'')
   \<and> (case explain g env ereq of
      Inl e \<Rightarrow> (status_code e = 503 \<and> cam_extractor g = None)
             \<or> (status_code e = 400 \<and> decode_fails env (ExplainRequest.frame ereq))
    | Inr resp \<Rightarrow>
        (\<exists>cam. cam_extractor g = Some cam) \<and> \<not> decode_fails env (ExplainRequest.frame ereq))
   \<and> (\<forall>m fr. model g = Some m
        \<longrightarrow> try_decode env (DetectRequest.frame dreq) ''Failed to decode image'' = Inr fr
        \<longrightarrow> no_boxes (track m fr (conf dreq) (iou dreq) (imgsz dreq))
        \<longrightarrow> detect g env dreq =
              Inr \<lparr>detections = [], vehicle_count = 0, count_by_class = [],
                   DetectResponse.inference_time_ms =
                     py_round ((perf_counter env 1 - perf_counter env 0) * 1000) 2,
                   frame_width = img_width fr, frame_height = img_height fr,
                   tracker = ''botsort''\<rparr>)"
proof -
  have d: "case detect g env dreq of
      Inl e \<Rightarrow> (status_code e = 503 \<and> model g = None)
             \<or> (status_code e = 400 \<and> decode_fails env (DetectRequest.frame dreq))
    | Inr resp \<Rightarrow>
        (\<exists>m. model g = Some m) \<and> \<not> decode_fails env (DetectRequest.frame dreq)
      \<and> vehicle_count resp = int (length (detections resp))
      \<and> sum_values (count_by_class resp) = vehicle_count resp
      \<and> tracker resp = ''botsort''"
  proof (cases "model g")
    case None
    then show ?thesis by (simp add: detect_unloaded)
  next
    case (Some m)
    show ?thesis
    proof (cases "try_decode env (DetectRequest.frame dreq) ''Failed to decode image''")
      case (Inl e)
      then have "decode_fails env (DetectRequest.frame dreq)"
        using decode_fails_iff by blast
      then show ?thesis
        by (simp add: detect_bad_frame [OF Some Inl])
    next
      case (Inr fr)
      then have "\<not> decode_fails env (DetectRequest.frame dreq)"
        using decode_ok_iff by blast
      then show ?thesis
        by (simp add: detect_ready [OF Some Inr] Some parse_results_length)
    qed
  qed
  have x: "case explain g env ereq of
      Inl e \<Rightarrow> (status_code e = 503 \<and> cam_extractor g = None)
             \<or> (status_code e = 400 \<and> decode_fails env (ExplainRequest.frame ereq))
    | Inr resp \<Rightarrow>
        (\<exists>cam. cam_extractor g = Some cam) \<and> \<not> decode_fails env (ExplainRequest.frame ereq)"
  proof (cases "cam_extractor g")
    case None
    then show ?thesis by (simp add: explain_unloaded)
  next
    case (Some cam)
    show ?thesis
    proof (cases "try_decode env (ExplainRequest.frame ereq) ''Failed to decode''")
      case (Inl e)
      then have "decode_fails env (ExplainRequest.frame ereq)"
        using decode_fails_iff by blast
      then show ?thesis
        by (simp add: explain_bad_frame [OF Some Inl])
    next
      case (Inr fr)
      then have "\<not> decode_fails env (ExplainRequest.frame ereq)"
        using decode_ok_iff by blast
      then show ?thesis
        by (simp add: explain_ready [OF Some Inr] Some)
    qed
  qed
  have e: "detect g env dreq =
              Inr \<lparr>detections = [], vehicle_count = 0, count_by_class = [],
                   DetectResponse.inference_time_ms =
                     py_round ((perf_counter env 1 - perf_counter env 0) * 1000) 2,
                   frame_width = img_width fr, frame_height = img_height fr,
                   tracker = ''botsort''\<rparr>"
    if "model g = Some m"
      and "try_decode env (DetectRequest.frame dreq) ''Failed to decode image'' = Inr fr"
      and "no_boxes (track m fr (conf dreq) (iou dreq) (imgsz dreq))" for m fr
    by (simp add: detect_ready [OF that(1,2)] parse_results_no_boxes [OF that(3)])
  show ?thesis
    using d x e by blast
qed

text \<open>A detector that returns a \<open>Boxes\<close> object with no rows.\<close>

theorem response_or_error_witness:
  "no_boxes (track (example_yolo [] True) example_image
      (conf example_request) (iou example_request) (imgsz example_request))
   \<and> detect (example_ready (example_yolo [] True)) (example_env (example_yolo [] True))
        example_request =
       Inr \<lparr>detections = [], vehicle_count = 0, count_by_class = [],
            DetectResponse.inference_time_ms = 125,
            frame_width = 64, frame_height = 48, tracker = ''botsort''\<rparr>"
proof -
  let ?y = "example_yolo [] True"
  have nb: "no_boxes (track ?y example_image
      (conf example_request) (iou example_request) (imgsz example_request))"
    by (simp add: no_boxes_def example_track example_boxes_sel)
  have t: "perf_counter (example_env ?y) n = real n / 8" for n
    by (simp add: example_env_def)
  from response_or_error [of "example_ready ?y" "example_env ?y" example_request
      example_explain_request]
  have "model (example_ready ?y) = Some ?y
        \<longrightarrow> try_decode (example_env ?y) (DetectRequest.frame example_request)
              ''Failed to decode image'' = Inr example_image
        \<longrightarrow> no_boxes (track ?y example_image
              (conf example_request) (iou example_request) (imgsz example_request))
        \<longrightarrow> detect (example_ready ?y) (example_env ?y) example_request =
              Inr \<lparr>detections = [], vehicle_count = 0, count_by_class = [],
                   DetectResponse.inference_time_ms =
                     py_round ((perf_counter (example_env ?y) 1
                       - perf_counter (example_env ?y) 0) * 1000) 2,
                   frame_width = img_width example_image,
                   frame_height = img_height example_image,
                   tracker = ''botsort''\<rparr>"
    by blast
  then show ?thesis
    using nb example_ready_model [of ?y] example_request_decode [of ?y "''Failed to decode image''"]
    by (simp add: t example_image_size py_round_def round_half_even_def)
qed

section \<open>The globals over the life of the process\<close>

text \<open>
  C6. After startup and shutdown only \<open>model\<close> is \<open>None\<close>: the part of \<open>lifespan\<close> after
  \<open>yield\<close> assigns \<open>model\<close> alone, and \<open>explain_model\<close> and \<open>cam_extractor\<close> keep what
  startup gave them.
\<close>

theorem lifespan_shutdown_keeps_explainability:
  "lifespan_startup (example_env (example_yolo example_rows True)) module_globals
     = Inr (example_ready (example_yolo example_rows True))
   \<and> model (lifespan_shutdown (example_ready (example_yolo example_rows True))) = None
   \<and> explain_model (lifespan_shutdown (example_ready (example_yolo example_rows True)))
       = Some example_mobilenet
   \<and> cam_extractor (lifespan_shutdown (example_ready (example_yolo example_rows True)))
       = Some (example_gradcam example_mobilenet)"
  by (simp add: example_startup lifespan_shutdown_def example_ready_def)

text \<open>
  C10. \<open>explain\<close> raises 503 exactly when \<open>cam_extractor\<close> is \<open>None\<close>, whatever \<open>model\<close> is.
  After a startup that succeeded and the shutdown, \<open>model\<close> is \<open>None\<close> and \<open>cam_extractor\<close> is
  still set: \<open>explain\<close> does not raise 503, while \<open>health_check\<close> reports \<open>model_loaded\<close> false
  and \<open>detect\<close> raises 503.
\<close>

theorem explain_checks_cam_extractor_only:
  "((\<exists>msg. explain g env ereq = Inl (HTTPException 503 msg)) \<longleftrightarrow> cam_extractor g = None)
   \<and> (lifespan_startup env g0 = Inr g1 \<longrightarrow>
        model (lifespan_shutdown g1) = None
      \<and> cam_extractor (lifespan_shutdown g1) = Some (new_GradCAM env (mobilenet_v3_small env))
      \<and> (\<forall>msg. explain (lifespan_shutdown g1) env ereq \<noteq> Inl (HTTPException 503 msg))
      \<and> health_check (lifespan_shutdown g1) =
           [(''status'', Str ''ok''), (''model_loaded'', Bool False),
            (''model_path'', Str ''best.pt''), (''tracker'', Str ''botsort'')]
      \<and> detect (lifespan_shutdown g1) env dreq = Inl (HTTPException 503 ''Model not loaded''))"
proof -
  have iff: "(\<exists>msg. explain g env ereq = Inl (HTTPException 503 msg)) \<longleftrightarrow> cam_extractor g = None"
    for g
    by (auto simp: explain_def Let_def split: option.splits sum.splits prod.splits)
  have "model (lifespan_shutdown g1) = None" 
    by (simp add: lifespan_shutdown_def)
  moreover have "cam_extractor (lifespan_shutdown g1) = Some (new_GradCAM env (mobilenet_v3_small env))"
    if "lifespan_startup env g0 = Inr g1"
    using that by (auto simp: lifespan_startup_def lifespan_shutdown_def Let_def split: if_splits)
  ultimately show ?thesis
    using iff [of g] iff [of "lifespan_shutdown g1"]
    by (auto simp: detect_unloaded health_check_def)
qed

theorem explain_checks_cam_extractor_only_witness:
  "lifespan_startup (example_env (example_yolo example_rows True)) module_globals
     = Inr (example_ready (example_yolo example_rows True))
   \<and> model (lifespan_shutdown (example_ready (example_yolo example_rows True))) = None
   \<and> cam_extractor (lifespan_shutdown (example_ready (example_yolo example_rows True)))
       = Some (example_gradcam example_mobilenet)
   \<and> (\<forall>msg. explain (lifespan_shutdown (example_ready (example_yolo example_rows True)))
          (example_env (example_yolo example_rows True)) example_explain_request
         \<noteq> Inl (HTTPException 503 msg))
   \<and> detect (lifespan_shutdown (example_ready (example_yolo example_rows True)))
          (example_env (example_yolo example_rows True)) example_request
       = Inl (HTTPException 503 ''Model not loaded'')"
  using explain_checks_cam_extractor_only [of "example_ready (example_yolo example_rows True)"
      "example_env (example_yolo example_rows True)" example_explain_request module_globals
      "example_ready (example_yolo example_rows True)" example_request]
    example_startup [of "example_yolo example_rows True"]
  by (simp add: example_env_def)

end
